theory Spec2Isabelle
  imports Complex_Main "HOL-Library.Word"
begin

section \<open>Errors and argument checks\<close>

text \<open>
  Every check of the two source modules raises Python's \<open>ValueError\<close>; using \<open>None\<close>
  where a number is expected raises \<open>TypeError\<close>. An exception is a value: a constructor
  returns \<open>Inl\<close> of the error or \<open>Inr\<close> of the object.
\<close>

datatype error = ValueError string | TypeError string

text \<open>
  Modelled from the spec: the checking helpers (\<open>Precondition\<close> of the legacy objects
  module, \<open>Condition\<close> of the order module) are imported by the sources but not among
  them. Each is modelled from its name and from the \<open>:raises ValueError:\<close> lines of the
  docstrings that call it: \<open>positive\<close> rejects a value that is not \<open>> 0\<close>,
  \<open>not_negative\<close> one that is \<open>< 0\<close>, \<open>true\<close> a false predicate. The string is the
  parameter name or message handed to the helper. \<open>Precondition.type\<close> is discharged by
  the typing of the model.
\<close>

definition Precondition_positive :: "rat \<Rightarrow> string \<Rightarrow> error option" where
  "Precondition_positive v param_name = (if v \<le> 0 then Some (ValueError param_name) else None)"

definition Precondition_not_negative :: "rat \<Rightarrow> string \<Rightarrow> error option" where
  "Precondition_not_negative v param_name = (if v < 0 then Some (ValueError param_name) else None)"

definition Precondition_true :: "bool \<Rightarrow> string \<Rightarrow> error option" where
  "Precondition_true predicate description = (if predicate then None else Some (ValueError description))"

text \<open>
  A constructor runs its checks one after the other; the first that raises ends it.
\<close>

fun first_error :: "error option list \<Rightarrow> error option" where
  "first_error [] = None"
| "first_error (Some e # cs) = Some e"
| "first_error (None # cs) = first_error cs"

section \<open>Python decimals\<close>

text \<open>
  A finite \<open>decimal.Decimal\<close> is a signed coefficient and an exponent: \<open>Decimal('1.50')\<close>
  is coefficient 150, exponent -2. Its number is \<open>coeff * 10 ^ exponent\<close>. Comparison
  (\<open>==\<close>, \<open><=\<close>, \<open><\<close>) is by that number, so \<open>Decimal('1.0') == Decimal('1.00')\<close>.
  Subtraction is exact and its result carries the smaller exponent. NaN, the infinities
  and the 28-digit limit of the default context are outside the model.
\<close>

record Decimal =
  coeff :: int
  exponent :: int

definition dec_val :: "Decimal \<Rightarrow> rat" where
  "dec_val d = (if 0 \<le> exponent d then of_int (coeff d) * 10 ^ nat (exponent d)
                else of_int (coeff d) / 10 ^ nat (- exponent d))"

definition Decimal_eq :: "Decimal \<Rightarrow> Decimal \<Rightarrow> bool" where
  "Decimal_eq a b = (dec_val a = dec_val b)"

definition Decimal_le :: "Decimal \<Rightarrow> Decimal \<Rightarrow> bool" where
  "Decimal_le a b = (dec_val a \<le> dec_val b)"

definition Decimal_sub :: "Decimal \<Rightarrow> Decimal \<Rightarrow> Decimal" where
  "Decimal_sub a b =
     (let e = min (exponent a) (exponent b)
      in \<lparr>coeff = coeff a * 10 ^ nat (exponent a - e) - coeff b * 10 ^ nat (exponent b - e),
          exponent = e\<rparr>)"

text \<open>
  Rounding to the nearest integer, ties to the even one: the rule of Python's \<open>round\<close>
  on floats and on decimals.
\<close>

definition round_half_even :: "rat \<Rightarrow> int" where
  "round_half_even x =
     (let f = \<lfloor>x\<rfloor>; r = x - of_int f
      in if r < 1 / 2 then f else if 1 / 2 < r then f + 1 else if even f then f else f + 1)"

text \<open>\<open>round(d, n)\<close> on a decimal: \<open>n\<close> fractional digits, exponent \<open>-n\<close>.\<close>

definition Decimal_round :: "Decimal \<Rightarrow> nat \<Rightarrow> Decimal" where
  "Decimal_round d n = \<lparr>coeff = round_half_even (dec_val d * 10 ^ n), exponent = - int n\<rparr>"

section \<open>The legacy value objects\<close>

subsection \<open>Symbol\<close>

text \<open>
  \<open>str.upper()\<close> on the characters of the model, which are bytes: the letters
  \<open>a\<close> to \<open>z\<close> move to \<open>A\<close> to \<open>Z\<close>, every other character stays. (Python also
  maps letters outside ASCII; instrument codes are ASCII.)
\<close>

definition upper_char :: "char \<Rightarrow> char" where
  "upper_char c = (let n = (of_char c :: nat) in if 97 \<le> n \<and> n \<le> 122 then char_of (n - 32) else c)"

definition upper :: "string \<Rightarrow> string" where
  "upper s = map upper_char s"

text \<open>
  \<open>'venue\<close> is the \<open>Venue\<close> enumeration, whose declaration is not among the sources.
  A constructor argument that shares its name with a field is written with a prime.
  \<open>Precondition.valid_string\<close> is not among them either and is the parameter
  \<open>valid_string\<close>: the predicate that accepts a code.
\<close>

record 'venue Symbol =
  code :: string
  venue :: 'venue

definition Symbol_init :: "(string \<Rightarrow> bool) \<Rightarrow> string \<Rightarrow> 'venue \<Rightarrow> error + 'venue Symbol" where
  "Symbol_init valid_string code' venue' =
     (if valid_string code' then Inr \<lparr>code = upper code', venue = venue'\<rparr>
      else Inl (ValueError ''code''))"

definition Symbol_eq :: "'venue Symbol \<Rightarrow> 'venue Symbol \<Rightarrow> bool" where
  "Symbol_eq self other = (code self = code other \<and> venue self = venue other)"

text \<open>\<open>hash\<close> is Python's built-in on the tuple \<open>(code, venue)\<close>; \<open>venue_name\<close> is \<open>.name\<close> of the enumeration.\<close>

definition Symbol_hash :: "(string \<times> 'venue \<Rightarrow> int) \<Rightarrow> 'venue Symbol \<Rightarrow> int" where
  "Symbol_hash hash self = hash (code self, venue self)"

definition Symbol_str :: "('venue \<Rightarrow> string) \<Rightarrow> 'venue Symbol \<Rightarrow> string" where
  "Symbol_str venue_name self = code self @ ''.'' @ venue_name (venue self)"

text \<open>
  Two codes that differ only in letter case: the same length, and at each position the
  same character or a lower-case letter against its capital.
\<close>

definition is_lower :: "char \<Rightarrow> bool" where
  "is_lower c = (97 \<le> (of_char c :: nat) \<and> (of_char c :: nat) \<le> 122)"

definition same_letter :: "char \<Rightarrow> char \<Rightarrow> bool" where
  "same_letter a b =
     (a = b \<or> (is_lower a \<and> (of_char a :: nat) = of_char b + 32)
            \<or> (is_lower b \<and> (of_char b :: nat) = of_char a + 32))"

definition differ_only_in_case :: "string \<Rightarrow> string \<Rightarrow> bool" where
  "differ_only_in_case c1 c2 = list_all2 same_letter c1 c2"

subsection \<open>Price\<close>

text \<open>
  \<open>Price.create\<close> rounds a double to \<open>decimals\<close> digits, prints it with that many
  digits and reads the text as a \<open>Decimal\<close>. The double is given by its exact value, a
  rational number (NaN and the infinities are left out). Python's \<open>round\<close> and its
  \<open>f\<close> format both round the exact binary value correctly, ties to even, so the
  decimal read back has coefficient \<open>round_half_even (price * 10 ^ decimals)\<close> and
  exponent \<open>- decimals\<close>.
\<close>

definition Price_create :: "rat \<Rightarrow> int \<Rightarrow> error + Decimal" where
  "Price_create price decimals =
     (case first_error
        [Precondition_positive price ''price'',
         Precondition_not_negative (of_int decimals) ''decimals'']
      of Some e \<Rightarrow> Inl e
       | None \<Rightarrow> Inr \<lparr>coeff = round_half_even (price * 10 ^ nat decimals), exponent = - decimals\<rparr>)"

subsection \<open>Tick\<close>

text \<open>
  \<open>'dt\<close> is the \<open>datetime\<close>.
\<close>

record ('venue, 'dt) Tick =
  symbol :: "'venue Symbol"
  bid :: Decimal
  ask :: Decimal
  timestamp :: 'dt

definition Tick_init ::
  "'venue Symbol \<Rightarrow> Decimal \<Rightarrow> Decimal \<Rightarrow> 'dt \<Rightarrow> error + ('venue, 'dt) Tick" where
  "Tick_init symbol' bid' ask' timestamp' =
     (case first_error
        [Precondition_positive (dec_val bid') ''bid'',
         Precondition_positive (dec_val ask') ''ask'']
      of Some e \<Rightarrow> Inl e
       | None \<Rightarrow> Inr \<lparr>symbol = symbol', bid = bid', ask = ask', timestamp = timestamp'\<rparr>)"

subsection \<open>BarType\<close>

text \<open>Python's \<open>str\<close> of an integer: decimal digits, a minus sign before a negative one.\<close>

definition digit_char :: "nat \<Rightarrow> char" where
  "digit_char d = char_of (48 + d)"

function str_nat :: "nat \<Rightarrow> string" where
  "str_nat n = (if n < 10 then [digit_char n] else str_nat (n div 10) @ [digit_char (n mod 10)])"
  by pat_completeness auto
termination
  by (relation "measure id") auto

declare str_nat.simps [simp del]

definition str_int :: "int \<Rightarrow> string" where
  "str_int i = (if i < 0 then CHR ''-'' # str_nat (nat (- i)) else str_nat (nat i))"

text \<open>Reading the digits back, as Python's \<open>int\<close> does on a string of digits.\<close>

definition digit_val :: "char \<Rightarrow> nat" where
  "digit_val c = of_char c - 48"

definition nat_of_digits :: "string \<Rightarrow> nat" where
  "nat_of_digits s = foldl (\<lambda>a c. 10 * a + digit_val c) 0 s"

text \<open>
  \<open>'res\<close> and \<open>'qt\<close> are the \<open>Resolution\<close> and \<open>QuoteType\<close> enumerations, not among
  the sources; \<open>period\<close> is a C \<open>int\<close>.
\<close>

record ('venue, 'res, 'qt) BarType =
  symbol :: "'venue Symbol"
  period :: int
  resolution :: 'res
  quote_type :: 'qt

definition BarType_init ::
  "'venue Symbol \<Rightarrow> int \<Rightarrow> 'res \<Rightarrow> 'qt \<Rightarrow> error + ('venue, 'res, 'qt) BarType" where
  "BarType_init symbol' period' resolution' quote_type' =
     (case first_error [Precondition_positive (of_int period') ''period'']
      of Some e \<Rightarrow> Inl e
       | None \<Rightarrow> Inr \<lparr>symbol = symbol', period = period', resolution = resolution',
                      quote_type = quote_type'\<rparr>)"

definition BarType_eq :: "('venue, 'res, 'qt) BarType \<Rightarrow> ('venue, 'res, 'qt) BarType \<Rightarrow> bool" where
  "BarType_eq self other =
     (Symbol_eq (BarType.symbol self) (BarType.symbol other) \<and> period self = period other
      \<and> resolution self = resolution other \<and> quote_type self = quote_type other)"

definition BarType_str ::
  "('venue \<Rightarrow> string) \<Rightarrow> ('res \<Rightarrow> string) \<Rightarrow> ('qt \<Rightarrow> string)
   \<Rightarrow> ('venue, 'res, 'qt) BarType \<Rightarrow> string" where
  "BarType_str venue_name resolution_name quote_type_name self =
     Symbol_str venue_name (BarType.symbol self) @ ''-'' @ str_int (period self) @ ''-''
     @ resolution_name (resolution self) @ ''['' @ quote_type_name (quote_type self) @ '']''"

text \<open>
  The canonical form in the words of the specification: five segments joined by dashes,
  the last one the source of the bars.
\<close>

definition canonical_form :: "string \<Rightarrow> string \<Rightarrow> string \<Rightarrow> string \<Rightarrow> string \<Rightarrow> string" where
  "canonical_form instrument_id step aggregation price_type source =
     instrument_id @ ''-'' @ step @ ''-'' @ aggregation @ ''-'' @ price_type @ ''-'' @ source"

text \<open>
  The name of a member of a Python enumeration is an identifier: letters, digits and
  underscores. Distinct members have distinct names.
\<close>

definition is_ident_char :: "char \<Rightarrow> bool" where
  "is_ident_char c =
     (let n = (of_char c :: nat)
      in (48 \<le> n \<and> n \<le> 57) \<or> (65 \<le> n \<and> n \<le> 90) \<or> n = 95 \<or> (97 \<le> n \<and> n \<le> 122))"

definition enum_names :: "('a \<Rightarrow> string) \<Rightarrow> bool" where
  "enum_names name = (inj name \<and> (\<forall>x. list_all is_ident_char (name x)))"

text \<open>
  Modelled from the spec: the declarations of the enumerations are not among the sources.
  For the examples, the members are those the specification names (\<open>FTX\<close> in its sample
  string, the aggregations and the price types of its data model), with \<open>FXCM\<close> for a
  second venue; the theorems hold for every enumeration and every naming that satisfies
  \<open>enum_names\<close>.
\<close>

datatype Venue = FTX | FXCM

datatype Resolution = TICK | SECOND | MINUTE

datatype QuoteType = BID | ASK | LAST | MID

fun Venue_name :: "Venue \<Rightarrow> string" where
  "Venue_name FTX = ''FTX''"
| "Venue_name FXCM = ''FXCM''"

fun Resolution_name :: "Resolution \<Rightarrow> string" where
  "Resolution_name TICK = ''TICK''"
| "Resolution_name SECOND = ''SECOND''"
| "Resolution_name MINUTE = ''MINUTE''"

fun QuoteType_name :: "QuoteType \<Rightarrow> string" where
  "QuoteType_name BID = ''BID''"
| "QuoteType_name ASK = ''ASK''"
| "QuoteType_name LAST = ''LAST''"
| "QuoteType_name MID = ''MID''"

subsection \<open>Bar\<close>

text \<open>
  \<open>volume\<close> is a C \<open>int\<close>; nothing is computed from it, so it is an \<open>int\<close> here.
  The field \<open>open\<close> is \<open>open_px\<close>: \<open>open\<close> is a keyword of Isabelle.
\<close>

record 'dt Bar =
  open_px :: Decimal
  high :: Decimal
  low :: Decimal
  close :: Decimal
  volume :: int
  timestamp :: 'dt

definition Bar_init ::
  "Decimal \<Rightarrow> Decimal \<Rightarrow> Decimal \<Rightarrow> Decimal \<Rightarrow> int \<Rightarrow> 'dt \<Rightarrow> error + 'dt Bar" where
  "Bar_init open_price high_price low_price close_price volume' timestamp' =
     (case first_error
        [Precondition_positive (dec_val open_price) ''open_price'',
         Precondition_positive (dec_val high_price) ''high_price'',
         Precondition_positive (dec_val low_price) ''low_price'',
         Precondition_positive (dec_val close_price) ''close_price'',
         Precondition_not_negative (of_int volume') ''volume'',
         Precondition_true (Decimal_le low_price high_price) ''high_price >= low_price'',
         Precondition_true (Decimal_le close_price high_price) ''high_price >= close_price'',
         Precondition_true (Decimal_le low_price close_price) ''low_price <= close_price'']
      of Some e \<Rightarrow> Inl e
       | None \<Rightarrow> Inr \<lparr>open_px = open_price, high = high_price, low = low_price,
                      close = close_price, volume = volume', timestamp = timestamp'\<rparr>)"

text \<open>
  \<open>__eq__\<close> compares the timestamps and nothing else; \<open>__hash__\<close> is Python's \<open>hash\<close>
  of \<open>str(timestamp)\<close>. Both built-ins are parameters: \<open>str_dt\<close> renders a datetime,
  \<open>hash\<close> hashes a string. Timestamps are UTC, as the docstring says, so two equal
  datetimes are the same value.
\<close>

definition Bar_eq :: "'dt Bar \<Rightarrow> 'dt Bar \<Rightarrow> bool" where
  "Bar_eq self other = (Bar.timestamp self = Bar.timestamp other)"

definition Bar_hash :: "('dt \<Rightarrow> string) \<Rightarrow> (string \<Rightarrow> int) \<Rightarrow> 'dt Bar \<Rightarrow> int" where
  "Bar_hash str_dt hash self = hash (str_dt (Bar.timestamp self))"

section \<open>The limit-if-touched order\<close>

subsection \<open>Prices and quantities of the order module\<close>

text \<open>
  Modelled from the spec: the \<open>Price\<close> and \<open>Quantity\<close> classes imported by the order
  module are not among the sources. By sections 3 and 4.1 of the specification each is
  a decimal value together with a precision, the value always representable at that
  precision; a constructor rounds to the precision, ties to even, and fails when the
  result is negative. Comparison and subtraction are those of the decimal values.
\<close>

record BaseDecimal =
  as_decimal :: Decimal
  precision :: nat

type_synonym Price = BaseDecimal

type_synonym Quantity = BaseDecimal

definition Quantity_new :: "Decimal \<Rightarrow> nat \<Rightarrow> error + Quantity" where
  "Quantity_new v p =
     (let d = Decimal_round v p
      in if dec_val d < 0 then Inl (ValueError ''quantity negative'')
         else Inr \<lparr>as_decimal = d, precision = p\<rparr>)"

definition Quantity_le :: "Quantity \<Rightarrow> Quantity \<Rightarrow> bool" where
  "Quantity_le a b = Decimal_le (as_decimal a) (as_decimal b)"

definition Quantity_sub :: "Quantity \<Rightarrow> Quantity \<Rightarrow> Decimal" where
  "Quantity_sub a b = Decimal_sub (as_decimal a) (as_decimal b)"

subsection \<open>Enumerations and events\<close>

text \<open>
  Modelled from the spec: the enumerations of the order module are not among the sources.
  The code names \<open>OrderSide.BUY\<close>, \<open>OrderSide.SELL\<close>, \<open>TriggerType.NONE\<close>,
  \<open>TimeInForce.GTD\<close> and \<open>ContingencyType.NONE\<close>; the specification adds
  \<open>LAST_PRICE\<close> and \<open>GTC\<close>. The remaining members stand for the others: the code
  treats every trigger type but \<open>NONE\<close> alike, and every time in force but \<open>GTD\<close>.
\<close>

datatype OrderSide = BUY | SELL

datatype TriggerType = NONE | DEFAULT | LAST_PRICE | BID_ASK

datatype TimeInForce = GTC | IOC | FOK | GTD

datatype ContingencyType = NO_CONTINGENCY | OCO | OTO

type_synonym int64 = "64 word"

record OrderUpdated =
  venue_order_id :: "string option"
  quantity :: "Quantity option"
  price :: "Price option"
  trigger_price :: "Price option"
  ts_event :: int64

record OrderTriggered =
  ts_event :: int64

subsection \<open>The order\<close>

text \<open>
  The fields of the order, those of the base class \<open>Order\<close> first. Identifiers are
  their string values. \<open>venue_order_ids\<close> is the history list \<open>_venue_order_ids\<close>;
  \<open>'dt\<close> is the \<open>datetime\<close>. The initialization event and its options mapping, read
  back by no method modelled here, are left out.
\<close>

record 'dt LimitIfTouchedOrder =
  trader_id :: string
  strategy_id :: string
  instrument_id :: string
  client_order_id :: string
  venue_order_id :: "string option"
  venue_order_ids :: "string option list"
  side :: OrderSide
  quantity :: Quantity
  filled_qty :: Quantity
  leaves_qty :: Quantity
  avg_px :: "Decimal option"
  slippage :: Decimal
  time_in_force :: TimeInForce
  is_post_only :: bool
  is_reduce_only :: bool
  order_list_id :: "string option"
  contingency_type :: ContingencyType
  linked_order_ids :: "string list option"
  parent_order_id :: "string option"
  tags :: "string option"
  init_id :: string
  ts_init :: int64
  price :: Price
  trigger_price :: Price
  trigger_type :: TriggerType
  expire_time :: "'dt option"
  expire_time_ns :: int64
  display_qty :: "Quantity option"
  is_triggered :: bool
  ts_triggered :: int64

text \<open>
  The block that computes \<open>expire_time_ns\<close>. \<open>dt_to_unix_nanos\<close>, imported by the
  module, is a parameter; it returns an \<open>int64_t\<close>, compared as a signed number.
\<close>

definition expire_time_ns_of ::
  "('dt \<Rightarrow> int64) \<Rightarrow> TimeInForce \<Rightarrow> 'dt option \<Rightarrow> error + int64" where
  "expire_time_ns_of dt_to_unix_nanos time_in_force' expire_time' =
     (if time_in_force' = GTD then
        (case expire_time' of
           None \<Rightarrow> Inl (ValueError ''expire_time'')
         | Some t \<Rightarrow>
             (let ns = dt_to_unix_nanos t
              in if 0 <s ns then Inr ns
                 else Inl (ValueError ''`expire_time` cannot be <= UNIX epoch.'')))
      else
        (case expire_time' of
           None \<Rightarrow> Inr 0
         | Some t \<Rightarrow> Inl (ValueError ''expire_time'')))"

text \<open>
  Modelled from the spec: \<open>Order.__init__\<close>, reached through \<open>super().__init__\<close>, is
  not among the sources. The class docstring gives its check (\<open>ValueError\<close> if
  \<open>quantity\<close> is not positive); section 3 of the specification gives the starting
  values: nothing filled, \<open>leaves_qty = quantity - filled_qty\<close>, no venue order id, no
  average price. It is the last two steps of the constructor below.
\<close>

definition LimitIfTouchedOrder_init ::
  "('dt \<Rightarrow> int64) \<Rightarrow> string \<Rightarrow> string \<Rightarrow> string \<Rightarrow> string \<Rightarrow> OrderSide \<Rightarrow> Quantity \<Rightarrow> Price
   \<Rightarrow> Price \<Rightarrow> TriggerType \<Rightarrow> TimeInForce \<Rightarrow> 'dt option \<Rightarrow> string \<Rightarrow> int64 \<Rightarrow> bool \<Rightarrow> bool
   \<Rightarrow> Quantity option \<Rightarrow> string option \<Rightarrow> ContingencyType \<Rightarrow> string list option
   \<Rightarrow> string option \<Rightarrow> string option \<Rightarrow> error + 'dt LimitIfTouchedOrder" where
  "LimitIfTouchedOrder_init dt_to_unix_nanos trader_id' strategy_id' instrument_id'
     client_order_id' order_side quantity' price' trigger_price' trigger_type' time_in_force'
     expire_time' init_id' ts_init' post_only reduce_only display_qty' order_list_id'
     contingency_type' linked_order_ids' parent_order_id' tags' =
     (if trigger_type' = NONE then Inl (ValueError ''trigger_type'')
      else
        (case expire_time_ns_of dt_to_unix_nanos time_in_force' expire_time' of
           Inl e \<Rightarrow> Inl e
         | Inr expire_time_ns' \<Rightarrow>
             if \<not> (case display_qty' of
                      None \<Rightarrow> True
                    | Some d \<Rightarrow> 0 \<le> dec_val (as_decimal d) \<and> Quantity_le d quantity')
             then Inl (ValueError ''display_qty was negative or greater than order quantity'')
             else if dec_val (as_decimal quantity') \<le> 0 then Inl (ValueError ''quantity'')
             else Inr
               \<lparr>trader_id = trader_id', strategy_id = strategy_id',
                instrument_id = instrument_id', client_order_id = client_order_id',
                venue_order_id = None, venue_order_ids = [],
                side = order_side, quantity = quantity',
                filled_qty = \<lparr>as_decimal = \<lparr>coeff = 0, exponent = - int (precision quantity')\<rparr>,
                              precision = precision quantity'\<rparr>,
                leaves_qty = quantity',
                avg_px = None, slippage = \<lparr>coeff = 0, exponent = 0\<rparr>,
                time_in_force = time_in_force',
                is_post_only = post_only, is_reduce_only = reduce_only,
                order_list_id = order_list_id', contingency_type = contingency_type',
                linked_order_ids = linked_order_ids', parent_order_id = parent_order_id',
                tags = tags', init_id = init_id', ts_init = ts_init',
                price = price', trigger_price = trigger_price', trigger_type = trigger_type',
                expire_time = expire_time', expire_time_ns = expire_time_ns',
                display_qty = display_qty', is_triggered = False, ts_triggered = 0\<rparr>))"

text \<open>
  \<open>_updated\<close>. The method assigns in place and may raise half way: the result is the
  error raised, if any, together with the order as the method leaves it. When
  \<open>Quantity\<close> raises, the venue order id, the history and the quantity are already
  replaced, and \<open>leaves_qty\<close>, the price and the trigger price are as before.
\<close>

definition LimitIfTouchedOrder_updated ::
  "'dt LimitIfTouchedOrder \<Rightarrow> OrderUpdated \<Rightarrow> error option \<times> 'dt LimitIfTouchedOrder" where
  "LimitIfTouchedOrder_updated self event =
     (let self1 =
            (if LimitIfTouchedOrder.venue_order_id self \<noteq> OrderUpdated.venue_order_id event
             then self\<lparr>venue_order_ids :=
                          venue_order_ids self @ [LimitIfTouchedOrder.venue_order_id self],
                        venue_order_id := OrderUpdated.venue_order_id event\<rparr>
             else self);
          r2 =
            (case OrderUpdated.quantity event of
               None \<Rightarrow> (None, self1)
             | Some q \<Rightarrow>
                 (let self2 = self1\<lparr>quantity := q\<rparr>
                  in case Quantity_new
                            (Quantity_sub (LimitIfTouchedOrder.quantity self2) (filled_qty self2))
                            (precision (LimitIfTouchedOrder.quantity self2)) of
                       Inl e \<Rightarrow> (Some e, self2)
                     | Inr l \<Rightarrow> (None, self2\<lparr>leaves_qty := l\<rparr>)))
      in case r2 of
           (Some e, s2) \<Rightarrow> (Some e, s2)
         | (None, s2) \<Rightarrow>
             (let s3 = (case OrderUpdated.price event of
                          None \<Rightarrow> s2 | Some p \<Rightarrow> s2\<lparr>price := p\<rparr>)
              in (None, case OrderUpdated.trigger_price event of
                          None \<Rightarrow> s3 | Some p \<Rightarrow> s3\<lparr>trigger_price := p\<rparr>)))"

definition LimitIfTouchedOrder_triggered ::
  "'dt LimitIfTouchedOrder \<Rightarrow> OrderTriggered \<Rightarrow> 'dt LimitIfTouchedOrder" where
  "LimitIfTouchedOrder_triggered self event =
     self\<lparr>is_triggered := True, ts_triggered := OrderTriggered.ts_event event\<rparr>"

text \<open>
  \<open>_set_slippage\<close>. Without an average price the subtraction is applied to \<open>None\<close>
  and raises.
\<close>

definition LimitIfTouchedOrder_set_slippage ::
  "'dt LimitIfTouchedOrder \<Rightarrow> error + 'dt LimitIfTouchedOrder" where
  "LimitIfTouchedOrder_set_slippage self =
     (case avg_px self of
        None \<Rightarrow> Inl (TypeError ''avg_px'')
      | Some a \<Rightarrow>
          (case side self of
             BUY \<Rightarrow> Inr (self\<lparr>slippage := Decimal_sub a (as_decimal (LimitIfTouchedOrder.price self))\<rparr>)
           | SELL \<Rightarrow> Inr (self\<lparr>slippage := Decimal_sub (as_decimal (LimitIfTouchedOrder.price self)) a\<rparr>)))"

text \<open>
  An expire time that agrees with the time in force: present and after the epoch for
  GTD, absent otherwise.
\<close>

definition expire_time_valid :: "('dt \<Rightarrow> int64) \<Rightarrow> TimeInForce \<Rightarrow> 'dt option \<Rightarrow> bool" where
  "expire_time_valid dt_to_unix_nanos tif et =
     (if tif = GTD then (case et of None \<Rightarrow> False | Some t \<Rightarrow> 0 <s dt_to_unix_nanos t)
      else et = None)"

subsection \<open>An example order\<close>

text \<open>
  The order of the end-to-end scenario of the specification: buy 1.0 at limit 100.00,
  trigger 99.00 on the last price. A datetime is given by its nanoseconds since the
  epoch, so \<open>dt_to_unix_nanos\<close> is the identity.
\<close>

definition example_init ::
  "TimeInForce \<Rightarrow> int64 option \<Rightarrow> Quantity option \<Rightarrow> error + int64 LimitIfTouchedOrder" where
  "example_init tif et dq =
     LimitIfTouchedOrder_init (\<lambda>t. t) ''TESTER-000'' ''S-001'' ''BTCUSD.FTX'' ''O-1'' BUY
       \<lparr>as_decimal = \<lparr>coeff = 10, exponent = - 1\<rparr>, precision = 1\<rparr>
       \<lparr>as_decimal = \<lparr>coeff = 10000, exponent = - 2\<rparr>, precision = 2\<rparr>
       \<lparr>as_decimal = \<lparr>coeff = 9900, exponent = - 2\<rparr>, precision = 2\<rparr>
       LAST_PRICE tif et ''init-1'' 0 False False dq None NO_CONTINGENCY None None None"

definition example_order :: "int64 LimitIfTouchedOrder" where
  "example_order =
     \<lparr>trader_id = ''TESTER-000'', strategy_id = ''S-001'',
      instrument_id = ''BTCUSD.FTX'', client_order_id = ''O-1'',
      venue_order_id = None, venue_order_ids = [],
      side = BUY, quantity = \<lparr>as_decimal = \<lparr>coeff = 10, exponent = - 1\<rparr>, precision = 1\<rparr>,
      filled_qty = \<lparr>as_decimal = \<lparr>coeff = 0, exponent = - 1\<rparr>, precision = 1\<rparr>,
      leaves_qty = \<lparr>as_decimal = \<lparr>coeff = 10, exponent = - 1\<rparr>, precision = 1\<rparr>,
      avg_px = None, slippage = \<lparr>coeff = 0, exponent = 0\<rparr>,
      time_in_force = GTC,
      is_post_only = False, is_reduce_only = False,
      order_list_id = None, contingency_type = NO_CONTINGENCY,
      linked_order_ids = None, parent_order_id = None,
      tags = None, init_id = ''init-1'', ts_init = 0,
      price = \<lparr>as_decimal = \<lparr>coeff = 10000, exponent = - 2\<rparr>, precision = 2\<rparr>,
      trigger_price = \<lparr>as_decimal = \<lparr>coeff = 9900, exponent = - 2\<rparr>, precision = 2\<rparr>,
      trigger_type = LAST_PRICE,
      expire_time = None, expire_time_ns = 0,
      display_qty = None, is_triggered = False, ts_triggered = 0\<rparr>"





section \<open>Properties of the legacy value objects\<close>

subsection \<open>Tick\<close>

text \<open>
  C8: constructing a Tick fails with a \<open>ValueError\<close> whenever \<open>bid <= 0\<close> or
  \<open>ask <= 0\<close>; for every pair of positive bid and ask it succeeds and stores the
  arguments as given, whatever their order: no \<open>ask >= bid\<close> relation is checked.
\<close>

theorem Tick_init_positive_only:
  "(dec_val b \<le> 0 \<or> dec_val a \<le> 0 \<longrightarrow> (\<exists>m. Tick_init s b a t = Inl (ValueError m))) \<and>
   (0 < dec_val b \<and> 0 < dec_val a \<longrightarrow>
      Tick_init s b a t = Inr \<lparr>Tick.symbol = s, bid = b, ask = a, Tick.timestamp = t\<rparr>)"
  by (simp add: Tick_init_def Precondition_positive_def)

theorem Tick_init_positive_only_witness:
  "0 < dec_val \<lparr>coeff = 12, exponent = - 1\<rparr> \<and> 0 < dec_val \<lparr>coeff = 11, exponent = - 1\<rparr> \<and>
   dec_val \<lparr>coeff = 11, exponent = - 1\<rparr> < dec_val \<lparr>coeff = 12, exponent = - 1\<rparr> \<and>
   Tick_init \<lparr>code = ''AUDUSD'', venue = FXCM\<rparr> \<lparr>coeff = 12, exponent = - 1\<rparr> \<lparr>coeff = 11, exponent = - 1\<rparr> (0::int)
     = Inr \<lparr>Tick.symbol = \<lparr>code = ''AUDUSD'', venue = FXCM\<rparr>, bid = \<lparr>coeff = 12, exponent = - 1\<rparr>,
            ask = \<lparr>coeff = 11, exponent = - 1\<rparr>, Tick.timestamp = 0\<rparr> \<and>
   dec_val \<lparr>coeff = 0, exponent = 0\<rparr> \<le> 0 \<and>
   (\<exists>m. Tick_init \<lparr>code = ''AUDUSD'', venue = FXCM\<rparr> \<lparr>coeff = 0, exponent = 0\<rparr> \<lparr>coeff = 11, exponent = - 1\<rparr> (0::int)
          = Inl (ValueError m))"
  using Tick_init_positive_only
      [of "\<lparr>coeff = 12, exponent = - 1\<rparr>" "\<lparr>coeff = 11, exponent = - 1\<rparr>"
        "\<lparr>code = ''AUDUSD'', venue = FXCM\<rparr>" "0::int"]
    Tick_init_positive_only
      [of "\<lparr>coeff = 0, exponent = 0\<rparr>" "\<lparr>coeff = 11, exponent = - 1\<rparr>"
        "\<lparr>code = ''AUDUSD'', venue = FXCM\<rparr>" "0::int"]
  by (simp add: dec_val_def)

subsection \<open>Bar\<close>

text \<open>What a successful construction guarantees: the fields are the arguments, unchanged.\<close>

lemma Bar_init_Inr:
  assumes "Bar_init op hi lo cl v t = Inr b"
  shows "b = \<lparr>open_px = op, high = hi, low = lo, close = cl, volume = v, timestamp = t\<rparr>"
    and "0 < dec_val op" and "0 < dec_val hi" and "0 < dec_val lo" and "0 < dec_val cl"
    and "0 \<le> v" and "Decimal_le lo hi" and "Decimal_le cl hi" and "Decimal_le lo cl"
  using assms
  by (auto simp: Bar_init_def Precondition_positive_def Precondition_not_negative_def
      Precondition_true_def split: if_splits option.splits)

text \<open>
  C1: the constructor is claimed to succeed only if \<open>low <= open <= high\<close>,
  \<open>low <= close <= high\<close>, \<open>low <= high\<close> and \<open>volume >= 0\<close>. The code compares high
  with low, high with close and low with close, and never open with high or low: the
  bar with open 3, high 2, low 1, close 1.5 is constructed, its open above its high.
\<close>

theorem Bar_init_open_unchecked:
  "Bar_init \<lparr>coeff = 3, exponent = 0\<rparr> \<lparr>coeff = 2, exponent = 0\<rparr> \<lparr>coeff = 1, exponent = 0\<rparr>
      \<lparr>coeff = 15, exponent = - 1\<rparr> 0 (0::int)
   = Inr \<lparr>open_px = \<lparr>coeff = 3, exponent = 0\<rparr>, high = \<lparr>coeff = 2, exponent = 0\<rparr>,
          low = \<lparr>coeff = 1, exponent = 0\<rparr>, close = \<lparr>coeff = 15, exponent = - 1\<rparr>,
          volume = 0, timestamp = 0\<rparr>
   \<and> \<not> Decimal_le \<lparr>coeff = 3, exponent = 0\<rparr> \<lparr>coeff = 2, exponent = 0\<rparr>"
  by (simp add: Bar_init_def Precondition_positive_def Precondition_not_negative_def
      Precondition_true_def Decimal_le_def dec_val_def)

text \<open>
  C9: two constructed Bars are equal exactly when their timestamps are equal, whatever
  their prices and volume, and two Bars with the same timestamp have the same hash.
\<close>

theorem Bar_eq_by_timestamp:
  assumes "Bar_init o1 h1 l1 c1 v1 t1 = Inr a" and "Bar_init o2 h2 l2 c2 v2 t2 = Inr b"
  shows "(Bar_eq a b \<longleftrightarrow> Bar.timestamp a = Bar.timestamp b) \<and>
         (Bar_eq a b \<longleftrightarrow> t1 = t2) \<and>
         (t1 = t2 \<longrightarrow> Bar_hash str_dt hash a = Bar_hash str_dt hash b)"
  using Bar_init_Inr(1) [OF assms(1)] Bar_init_Inr(1) [OF assms(2)]
  by (simp add: Bar_eq_def Bar_hash_def)

theorem Bar_eq_by_timestamp_witness:
  "Bar_init \<lparr>coeff = 2, exponent = 0\<rparr> \<lparr>coeff = 3, exponent = 0\<rparr> \<lparr>coeff = 1, exponent = 0\<rparr>
      \<lparr>coeff = 2, exponent = 0\<rparr> 10 (7::int)
     = Inr \<lparr>open_px = \<lparr>coeff = 2, exponent = 0\<rparr>, high = \<lparr>coeff = 3, exponent = 0\<rparr>,
            low = \<lparr>coeff = 1, exponent = 0\<rparr>, close = \<lparr>coeff = 2, exponent = 0\<rparr>,
            volume = 10, timestamp = 7\<rparr> \<and>
   Bar_init \<lparr>coeff = 5, exponent = 0\<rparr> \<lparr>coeff = 9, exponent = 0\<rparr> \<lparr>coeff = 4, exponent = 0\<rparr>
      \<lparr>coeff = 6, exponent = 0\<rparr> 25 (7::int)
     = Inr \<lparr>open_px = \<lparr>coeff = 5, exponent = 0\<rparr>, high = \<lparr>coeff = 9, exponent = 0\<rparr>,
            low = \<lparr>coeff = 4, exponent = 0\<rparr>, close = \<lparr>coeff = 6, exponent = 0\<rparr>,
            volume = 25, timestamp = 7\<rparr> \<and>
   Bar_eq
     \<lparr>open_px = \<lparr>coeff = 2, exponent = 0\<rparr>, high = \<lparr>coeff = 3, exponent = 0\<rparr>,
      low = \<lparr>coeff = 1, exponent = 0\<rparr>, close = \<lparr>coeff = 2, exponent = 0\<rparr>,
      volume = 10, timestamp = 7::int\<rparr>
     \<lparr>open_px = \<lparr>coeff = 5, exponent = 0\<rparr>, high = \<lparr>coeff = 9, exponent = 0\<rparr>,
      low = \<lparr>coeff = 4, exponent = 0\<rparr>, close = \<lparr>coeff = 6, exponent = 0\<rparr>,
      volume = 25, timestamp = 7\<rparr> \<and>
   Bar_hash str_int (\<lambda>s. int (length s))
     \<lparr>open_px = \<lparr>coeff = 2, exponent = 0\<rparr>, high = \<lparr>coeff = 3, exponent = 0\<rparr>,
      low = \<lparr>coeff = 1, exponent = 0\<rparr>, close = \<lparr>coeff = 2, exponent = 0\<rparr>,
      volume = 10, timestamp = 7::int\<rparr>
   = Bar_hash str_int (\<lambda>s. int (length s))
     \<lparr>open_px = \<lparr>coeff = 5, exponent = 0\<rparr>, high = \<lparr>coeff = 9, exponent = 0\<rparr>,
      low = \<lparr>coeff = 4, exponent = 0\<rparr>, close = \<lparr>coeff = 6, exponent = 0\<rparr>,
      volume = 25, timestamp = 7\<rparr>"
proof -
  have a: "Bar_init \<lparr>coeff = 2, exponent = 0\<rparr> \<lparr>coeff = 3, exponent = 0\<rparr> \<lparr>coeff = 1, exponent = 0\<rparr>
      \<lparr>coeff = 2, exponent = 0\<rparr> 10 (7::int)
     = Inr \<lparr>open_px = \<lparr>coeff = 2, exponent = 0\<rparr>, high = \<lparr>coeff = 3, exponent = 0\<rparr>,
            low = \<lparr>coeff = 1, exponent = 0\<rparr>, close = \<lparr>coeff = 2, exponent = 0\<rparr>,
            volume = 10, timestamp = 7\<rparr>"
    by (simp add: Bar_init_def Precondition_positive_def Precondition_not_negative_def
        Precondition_true_def Decimal_le_def dec_val_def)
  have b: "Bar_init \<lparr>coeff = 5, exponent = 0\<rparr> \<lparr>coeff = 9, exponent = 0\<rparr> \<lparr>coeff = 4, exponent = 0\<rparr>
      \<lparr>coeff = 6, exponent = 0\<rparr> 25 (7::int)
     = Inr \<lparr>open_px = \<lparr>coeff = 5, exponent = 0\<rparr>, high = \<lparr>coeff = 9, exponent = 0\<rparr>,
            low = \<lparr>coeff = 4, exponent = 0\<rparr>, close = \<lparr>coeff = 6, exponent = 0\<rparr>,
            volume = 25, timestamp = 7\<rparr>"
    by (simp add: Bar_init_def Precondition_positive_def Precondition_not_negative_def
        Precondition_true_def Decimal_le_def dec_val_def)
  from Bar_eq_by_timestamp [OF a b, of str_int "\<lambda>s. int (length s)"] a b
  show ?thesis by simp
qed

subsection \<open>Symbol\<close>

lemma same_letter_upper_char:
  assumes "same_letter a b"
  shows "upper_char a = upper_char b"
proof -
  consider "a = b"
    | "is_lower a" and "(of_char a :: nat) = of_char b + 32"
    | "is_lower b" and "(of_char b :: nat) = of_char a + 32"
    using assms unfolding same_letter_def by blast
  then show ?thesis
  proof cases
    case 1
    then show ?thesis by simp
  next
    case 2
    then have "char_of ((of_char a :: nat) - 32) = b" by simp
    with 2 show ?thesis by (simp add: upper_char_def is_lower_def)
  next
    case 3
    then have "char_of ((of_char b :: nat) - 32) = a" by simp
    with 3 show ?thesis by (simp add: upper_char_def is_lower_def)
  qed
qed

lemma differ_only_in_case_upper: "differ_only_in_case c1 c2 \<Longrightarrow> upper c1 = upper c2"
  unfolding differ_only_in_case_def upper_def
  by (induction c1 c2 rule: list_all2_induct) (auto dest: same_letter_upper_char)

text \<open>
  C10: constructing a Symbol from a valid code stores the upper-cased code; two Symbols
  built at the same venue from codes that differ only in letter case are equal, hash
  identically and print the same string, the upper-cased code before the venue name.
\<close>

theorem Symbol_init_uppercases:
  assumes "valid_string c1" and "valid_string c2" and "differ_only_in_case c1 c2"
  shows "\<exists>s1 s2. Symbol_init valid_string c1 v = Inr s1 \<and> Symbol_init valid_string c2 v = Inr s2
           \<and> code s1 = upper c1 \<and> code s2 = upper c2 \<and> venue s1 = v \<and> venue s2 = v
           \<and> Symbol_eq s1 s2 \<and> Symbol_hash hash s1 = Symbol_hash hash s2
           \<and> Symbol_str venue_name s1 = upper c1 @ ''.'' @ venue_name v
           \<and> Symbol_str venue_name s2 = Symbol_str venue_name s1"
  using assms differ_only_in_case_upper [OF assms(3)]
  by (simp add: Symbol_init_def Symbol_eq_def Symbol_hash_def Symbol_str_def)

theorem Symbol_init_uppercases_witness:
  "''audusd'' \<noteq> [] \<and> ''AudUsd'' \<noteq> [] \<and> differ_only_in_case ''audusd'' ''AudUsd''
   \<and> upper ''audusd'' = ''AUDUSD'' \<and> upper ''AudUsd'' = ''AUDUSD''
   \<and> (\<exists>s1 s2. Symbol_init (\<lambda>s. s \<noteq> []) ''audusd'' FXCM = Inr s1
         \<and> Symbol_init (\<lambda>s. s \<noteq> []) ''AudUsd'' FXCM = Inr s2
         \<and> code s1 = ''AUDUSD'' \<and> code s2 = ''AUDUSD''
         \<and> Symbol_eq s1 s2
         \<and> Symbol_hash (\<lambda>(c, v). int (length c)) s1 = Symbol_hash (\<lambda>(c, v). int (length c)) s2
         \<and> Symbol_str Venue_name s1 = ''AUDUSD.FXCM''
         \<and> Symbol_str Venue_name s2 = ''AUDUSD.FXCM'')"
proof -
  have d: "differ_only_in_case ''audusd'' ''AudUsd''" by code_simp
  have u1: "upper ''audusd'' = ''AUDUSD''" by code_simp
  have u2: "upper ''AudUsd'' = ''AUDUSD''" by code_simp
  have v1: "(\<lambda>s. s \<noteq> []) ''audusd''" and v2: "(\<lambda>s. s \<noteq> []) ''AudUsd''" by simp_all
  from Symbol_init_uppercases [of "\<lambda>s. s \<noteq> []", OF v1 v2 d, of FXCM "\<lambda>(c, v). int (length c)" Venue_name]
  obtain s1 s2 where "Symbol_init (\<lambda>s. s \<noteq> []) ''audusd'' FXCM = Inr s1"
    and "Symbol_init (\<lambda>s. s \<noteq> []) ''AudUsd'' FXCM = Inr s2"
    and "code s1 = upper ''audusd''" and "code s2 = upper ''AudUsd''"
    and "Symbol_eq s1 s2"
    and "Symbol_hash (\<lambda>(c, v). int (length c)) s1 = Symbol_hash (\<lambda>(c, v). int (length c)) s2"
    and "Symbol_str Venue_name s1 = upper ''audusd'' @ ''.'' @ Venue_name FXCM"
    and "Symbol_str Venue_name s2 = Symbol_str Venue_name s1"
    by blast
  then have "Symbol_init (\<lambda>s. s \<noteq> []) ''audusd'' FXCM = Inr s1
         \<and> Symbol_init (\<lambda>s. s \<noteq> []) ''AudUsd'' FXCM = Inr s2
         \<and> code s1 = ''AUDUSD'' \<and> code s2 = ''AUDUSD''
         \<and> Symbol_eq s1 s2
         \<and> Symbol_hash (\<lambda>(c, v). int (length c)) s1 = Symbol_hash (\<lambda>(c, v). int (length c)) s2
         \<and> Symbol_str Venue_name s1 = ''AUDUSD.FXCM''
         \<and> Symbol_str Venue_name s2 = ''AUDUSD.FXCM''"
    by (simp add: u1 u2)
  then have "\<exists>s1 s2. Symbol_init (\<lambda>s. s \<noteq> []) ''audusd'' FXCM = Inr s1
         \<and> Symbol_init (\<lambda>s. s \<noteq> []) ''AudUsd'' FXCM = Inr s2
         \<and> code s1 = ''AUDUSD'' \<and> code s2 = ''AUDUSD''
         \<and> Symbol_eq s1 s2
         \<and> Symbol_hash (\<lambda>(c, v). int (length c)) s1 = Symbol_hash (\<lambda>(c, v). int (length c)) s2
         \<and> Symbol_str Venue_name s1 = ''AUDUSD.FXCM''
         \<and> Symbol_str Venue_name s2 = ''AUDUSD.FXCM''"
    by blast
  with d u1 u2 show ?thesis by simp
qed

subsection \<open>Price\<close>

lemma round_half_even_of_int: "round_half_even (of_int n) = n"
  by (simp add: round_half_even_def)

lemma round_half_even_Ints: "x \<in> \<int> \<Longrightarrow> of_int (round_half_even x) = x"
  by (auto elim!: Ints_cases simp: round_half_even_of_int)


lemma dec_val_round_exact:
  assumes "x * 10 ^ p \<in> \<int>"
  shows "dec_val \<lparr>coeff = round_half_even (x * 10 ^ p), exponent = - int p\<rparr> = x"
proof (cases "p = 0")
  case True
  with assms show ?thesis by (simp add: dec_val_def round_half_even_Ints)
next
  case False
  then show ?thesis using assms by (simp add: dec_val_def round_half_even_Ints)
qed

lemma Price_create_Inr:
  "0 < v \<Longrightarrow> 0 \<le> p \<Longrightarrow>
     Price_create v p = Inr \<lparr>coeff = round_half_even (v * 10 ^ nat p), exponent = - p\<rparr>"
  by (simp add: Price_create_def Precondition_positive_def Precondition_not_negative_def)

lemma dec_val_Price:
  assumes "0 \<le> p" and "v * 10 ^ nat p \<in> \<int>"
  shows "dec_val \<lparr>coeff = round_half_even (v * 10 ^ nat p), exponent = - p\<rparr> = v"
  using dec_val_round_exact [OF assms(2)] assms(1) by simp

lemma Ints_scale_up:
  assumes "p1 \<le> p2" and "0 \<le> p1" and "(v::rat) * 10 ^ nat p1 \<in> \<int>"
  shows "v * 10 ^ nat p2 \<in> \<int>"
proof -
  have "nat p2 = nat p1 + nat (p2 - p1)" using assms by simp
  then have eq: "v * 10 ^ nat p2 = (v * 10 ^ nat p1) * 10 ^ nat (p2 - p1)"
    by (simp only: power_add mult.assoc)
  have "(10::rat) ^ nat (p2 - p1) \<in> \<int>" by simp
  then have "(v * 10 ^ nat p1) * 10 ^ nat (p2 - p1) \<in> \<int>"
    by (rule Ints_mult [OF assms(3)])
  then show ?thesis by (simp only: eq)
qed

text \<open>
  C6, as claimed: a value built at precision \<open>p1\<close> is not equal to the same value built at
  another precision. The factory returns a plain \<open>Decimal\<close>, compared by its number:
  \<open>Price.create(1.0, 1)\<close> is \<open>Decimal('1.0')\<close>, \<open>Price.create(1.0, 2)\<close> is
  \<open>Decimal('1.00')\<close>, and the two are equal.
\<close>

theorem Price_create_precision_counterexample:
  "Price_create 1 1 = Inr \<lparr>coeff = 10, exponent = - 1\<rparr> \<and>
   Price_create 1 2 = Inr \<lparr>coeff = 100, exponent = - 2\<rparr> \<and>
   Decimal_eq \<lparr>coeff = 10, exponent = - 1\<rparr> \<lparr>coeff = 100, exponent = - 2\<rparr>"
proof -
  have "round_half_even 10 = 10" and "round_half_even 100 = 100"
    using round_half_even_of_int [of 10] round_half_even_of_int [of 100] by simp_all
  then show ?thesis
    by (simp add: Price_create_def Precondition_positive_def Precondition_not_negative_def
        Decimal_eq_def dec_val_def)
qed

text \<open>
  C6, amended: the values built by the price factory are compared by their number alone.
  For every positive value that has at most \<open>p1\<close> decimal digits and every precision
  \<open>p2 \<ge> p1\<close>, the factory succeeds at both precisions, the two results carry their own
  exponents \<open>-p1\<close> and \<open>-p2\<close>, both have the value, and they are equal.
\<close>

theorem Price_create_equal_across_precisions:
  assumes "0 < v" and "0 \<le> p1" and "p1 \<le> p2" and "v * 10 ^ nat p1 \<in> \<int>"
  shows "\<exists>a b. Price_create v p1 = Inr a \<and> Price_create v p2 = Inr b
           \<and> exponent a = - p1 \<and> exponent b = - p2 \<and> dec_val a = v \<and> dec_val b = v
           \<and> Decimal_eq a b \<and> Decimal_eq b a"
proof -
  have p2: "0 \<le> p2" using assms by simp
  have i2: "v * 10 ^ nat p2 \<in> \<int>" using Ints_scale_up [OF assms(3,2,4)] .
  show ?thesis
    using Price_create_Inr [OF assms(1,2)] Price_create_Inr [OF assms(1) p2]
      dec_val_Price [OF assms(2,4)] dec_val_Price [OF p2 i2]
    by (simp add: Decimal_eq_def)
qed

theorem Price_create_equal_across_precisions_witness:
  "(0::rat) < 1 \<and> (0::int) \<le> 1 \<and> (1::int) \<le> 2 \<and> (1::rat) * 10 ^ nat 1 \<in> \<int> \<and>
   (\<exists>a b. Price_create 1 1 = Inr a \<and> Price_create 1 2 = Inr b
           \<and> exponent a = - 1 \<and> exponent b = - 2 \<and> dec_val a = 1 \<and> dec_val b = 1
           \<and> Decimal_eq a b \<and> Decimal_eq b a)"
  using Price_create_equal_across_precisions [of 1 1 2] by simp

subsection \<open>BarType\<close>

text \<open>Cutting a string at its last separator.\<close>

lemma append_sep_eq:
  assumes "c \<notin> set b" and "c \<notin> set b'" and "a @ c # b = a' @ c # b'"
  shows "a = a' \<and> b = b'"
proof -
  from assms(3) have "rev (a @ c # b) = rev (a' @ c # b')" by simp
  then have "rev b @ c # rev a = rev b' @ c # rev a'" by simp
  moreover have "takeWhile (\<lambda>x. x \<noteq> c) (rev b @ c # rev a) = rev b"
    using assms(1) by (auto simp: takeWhile_tail)
  moreover have "takeWhile (\<lambda>x. x \<noteq> c) (rev b' @ c # rev a') = rev b'"
    using assms(2) by (auto simp: takeWhile_tail)
  ultimately have "rev b = rev b'" by simp
  then have "b = b'" by simp
  with assms(3) show ?thesis by simp
qed

text \<open>The digits of a number determine it, and there is no dash among them.\<close>

lemma digit_char_val: "d < 10 \<Longrightarrow> digit_val (digit_char d) = d"
  by (simp add: digit_val_def digit_char_def)

lemma nat_of_digits_snoc: "nat_of_digits (s @ [c]) = 10 * nat_of_digits s + digit_val c"
  by (simp add: nat_of_digits_def)

lemma nat_of_digits_str_nat: "nat_of_digits (str_nat n) = n"
proof (induction n rule: str_nat.induct)
  case (1 n)
  show ?case
  proof (cases "n < 10")
    case True
    then show ?thesis
      by (subst str_nat.simps) (simp add: nat_of_digits_def digit_char_val)
  next
    case False
    then have "nat_of_digits (str_nat n)
        = 10 * nat_of_digits (str_nat (n div 10)) + digit_val (digit_char (n mod 10))"
      by (subst str_nat.simps) (simp add: nat_of_digits_snoc)
    with 1 False show ?thesis by (simp add: digit_char_val)
  qed
qed

lemma digit_char_not_dash: "d < 10 \<Longrightarrow> digit_char d \<noteq> CHR ''-''"
proof
  assume "d < 10" and "digit_char d = CHR ''-''"
  then have "(of_char (digit_char d) :: nat) = of_char (CHR ''-'')" by simp
  with \<open>d < 10\<close> show False by (simp add: digit_char_def)
qed

lemma str_nat_no_dash: "CHR ''-'' \<notin> set (str_nat n)"
proof (induction n rule: str_nat.induct)
  case (1 n)
  show ?case
  proof (cases "n < 10")
    case True
    then show ?thesis using digit_char_not_dash [of n] by (subst str_nat.simps) auto
  next
    case False
    with 1 show ?thesis
      using digit_char_not_dash [of "n mod 10"] by (subst str_nat.simps) auto
  qed
qed

lemma str_int_positive:
  assumes "0 < p" and "0 < q" and "str_int p = str_int q"
  shows "p = q"
proof -
  from assms have "str_nat (nat p) = str_nat (nat q)" by (simp add: str_int_def)
  then have "nat_of_digits (str_nat (nat p)) = nat_of_digits (str_nat (nat q))" by simp
  then have "nat p = nat q" by (simp only: nat_of_digits_str_nat)
  with assms show ?thesis by simp
qed

lemma ident_no_special:
  assumes "list_all is_ident_char s"
  shows "CHR ''.'' \<notin> set s" and "CHR ''-'' \<notin> set s" and "CHR ''['' \<notin> set s"
  using assms by (auto simp: list_all_iff is_ident_char_def)

lemma BarType_init_Inr:
  assumes "BarType_init s p r q = Inr bt"
  shows "bt = \<lparr>symbol = s, period = p, resolution = r, quote_type = q\<rparr>" and "0 < p"
  using assms
  by (auto simp: BarType_init_def Precondition_positive_def split: if_splits)

text \<open>The string is read back from the right, one separator after the other.\<close>

lemma BarType_str_parts:
  assumes vn: "enum_names venue_name" and rn: "enum_names resolution_name"
    and qn: "enum_names quote_type_name"
    and eq: "c1 @ ''.'' @ venue_name v1 @ ''-'' @ str_int p1 @ ''-'' @ resolution_name r1 @ ''[''
               @ quote_type_name q1 @ '']''
           = c2 @ ''.'' @ venue_name v2 @ ''-'' @ str_int p2 @ ''-'' @ resolution_name r2 @ ''[''
               @ quote_type_name q2 @ '']''"
    and pos: "0 < p1" "0 < p2"
  shows "c1 = c2 \<and> v1 = v2 \<and> p1 = p2 \<and> r1 = r2 \<and> q1 = q2"
proof -
  let ?A1 = "c1 @ ''.'' @ venue_name v1 @ ''-'' @ str_int p1 @ ''-'' @ resolution_name r1"
  let ?A2 = "c2 @ ''.'' @ venue_name v2 @ ''-'' @ str_int p2 @ ''-'' @ resolution_name r2"
  let ?B1 = "c1 @ ''.'' @ venue_name v1 @ ''-'' @ str_int p1"
  let ?B2 = "c2 @ ''.'' @ venue_name v2 @ ''-'' @ str_int p2"
  let ?C1 = "c1 @ ''.'' @ venue_name v1"
  let ?C2 = "c2 @ ''.'' @ venue_name v2"
  have idv: "list_all is_ident_char (venue_name v1)" "list_all is_ident_char (venue_name v2)"
    and idr: "list_all is_ident_char (resolution_name r1)"
      "list_all is_ident_char (resolution_name r2)"
    and idq: "list_all is_ident_char (quote_type_name q1)"
      "list_all is_ident_char (quote_type_name q2)"
    using vn rn qn by (simp_all add: enum_names_def)
  from eq have "(?A1 @ CHR ''['' # quote_type_name q1) @ '']''
              = (?A2 @ CHR ''['' # quote_type_name q2) @ '']''"
    by simp
  then have e1: "?A1 @ CHR ''['' # quote_type_name q1 = ?A2 @ CHR ''['' # quote_type_name q2"
    by (simp only: append_same_eq)
  have s1: "?A1 = ?A2 \<and> quote_type_name q1 = quote_type_name q2"
    by (rule append_sep_eq [OF ident_no_special(3) [OF idq(1)] ident_no_special(3) [OF idq(2)] e1])
  then have "?B1 @ CHR ''-'' # resolution_name r1 = ?B2 @ CHR ''-'' # resolution_name r2"
    by simp
  then have s2: "?B1 = ?B2 \<and> resolution_name r1 = resolution_name r2"
    by (rule append_sep_eq [OF ident_no_special(2) [OF idr(1)] ident_no_special(2) [OF idr(2)]])
  have d1: "CHR ''-'' \<notin> set (str_int p1)" "CHR ''-'' \<notin> set (str_int p2)"
    using pos by (simp_all add: str_int_def str_nat_no_dash)
  from s2 have "?C1 @ CHR ''-'' # str_int p1 = ?C2 @ CHR ''-'' # str_int p2"
    by simp
  then have s3: "?C1 = ?C2 \<and> str_int p1 = str_int p2"
    by (rule append_sep_eq [OF d1])
  then have "c1 @ CHR ''.'' # venue_name v1 = c2 @ CHR ''.'' # venue_name v2"
    by simp
  then have s4: "c1 = c2 \<and> venue_name v1 = venue_name v2"
    by (rule append_sep_eq [OF ident_no_special(1) [OF idv(1)] ident_no_special(1) [OF idv(2)]])
  have "v1 = v2" and "r1 = r2" and "q1 = q2"
    using s1 s2 s4 vn rn qn by (auto simp: enum_names_def dest: injD)
  moreover have "p1 = p2" using s3 pos by (auto intro: str_int_positive)
  ultimately show ?thesis using s4 by simp
qed

lemma enum_names_Venue: "enum_names Venue_name"
  unfolding enum_names_def
proof
  show "inj Venue_name"
  proof (rule injI)
    fix x y show "Venue_name x = Venue_name y \<Longrightarrow> x = y" by (cases x; cases y) simp_all
  qed
  show "\<forall>x. list_all is_ident_char (Venue_name x)"
  proof
    fix x show "list_all is_ident_char (Venue_name x)"
      by (cases x) (simp_all add: is_ident_char_def)
  qed
qed

lemma enum_names_Resolution: "enum_names Resolution_name"
  unfolding enum_names_def
proof
  show "inj Resolution_name"
  proof (rule injI)
    fix x y show "Resolution_name x = Resolution_name y \<Longrightarrow> x = y"
      by (cases x; cases y) simp_all
  qed
  show "\<forall>x. list_all is_ident_char (Resolution_name x)"
  proof
    fix x show "list_all is_ident_char (Resolution_name x)"
      by (cases x) (simp_all add: is_ident_char_def)
  qed
qed

lemma enum_names_QuoteType: "enum_names QuoteType_name"
  unfolding enum_names_def
proof
  show "inj QuoteType_name"
  proof (rule injI)
    fix x y show "QuoteType_name x = QuoteType_name y \<Longrightarrow> x = y"
      by (cases x; cases y) simp_all
  qed
  show "\<forall>x. list_all is_ident_char (QuoteType_name x)"
  proof
    fix x show "list_all is_ident_char (QuoteType_name x)"
      by (cases x) (simp_all add: is_ident_char_def)
  qed
qed

lemma str_int_1: "str_int 1 = ''1''"
  by code_simp

lemma str_int_11: "str_int 11 = ''11''"
  by code_simp

text \<open>
  C7, as claimed: formatting gives the five dash-separated segments of the canonical
  form. The code prints four parts, the quote type in square brackets, and a BarType has
  no source: \<open>AUDUSD.FXCM\<close>, period 1, \<open>MINUTE\<close>, \<open>BID\<close> prints as
  \<open>AUDUSD.FXCM-1-MINUTE[BID]\<close>, which is the canonical form for neither source.
\<close>

theorem BarType_str_counterexample:
  "BarType_init \<lparr>code = ''AUDUSD'', venue = FXCM\<rparr> 1 MINUTE BID
     = Inr \<lparr>symbol = \<lparr>code = ''AUDUSD'', venue = FXCM\<rparr>, period = 1, resolution = MINUTE,
            quote_type = BID\<rparr>
   \<and> BarType_str Venue_name Resolution_name QuoteType_name
       \<lparr>symbol = \<lparr>code = ''AUDUSD'', venue = FXCM\<rparr>, period = 1, resolution = MINUTE,
        quote_type = BID\<rparr>
     = ''AUDUSD.FXCM-1-MINUTE[BID]''
   \<and> BarType_str Venue_name Resolution_name QuoteType_name
       \<lparr>symbol = \<lparr>code = ''AUDUSD'', venue = FXCM\<rparr>, period = 1, resolution = MINUTE,
        quote_type = BID\<rparr>
     \<noteq> canonical_form (Symbol_str Venue_name \<lparr>code = ''AUDUSD'', venue = FXCM\<rparr>) (str_int 1)
          (Resolution_name MINUTE) (QuoteType_name BID) ''EXTERNAL''
   \<and> BarType_str Venue_name Resolution_name QuoteType_name
       \<lparr>symbol = \<lparr>code = ''AUDUSD'', venue = FXCM\<rparr>, period = 1, resolution = MINUTE,
        quote_type = BID\<rparr>
     \<noteq> canonical_form (Symbol_str Venue_name \<lparr>code = ''AUDUSD'', venue = FXCM\<rparr>) (str_int 1)
          (Resolution_name MINUTE) (QuoteType_name BID) ''INTERNAL''"
  by (simp add: BarType_init_def Precondition_positive_def BarType_str_def Symbol_str_def
      str_int_1 canonical_form_def)

text \<open>
  C7, amended: for every constructed BarType, formatting produces
  \<open><code>.<venue>-<period>-<resolution>[<quote_type>]\<close>, and two constructed BarTypes
  print the same string exactly when they are equal: formatting loses nothing, so it has
  an exact inverse on the strings it produces. (The source defines no parser.)
\<close>

theorem BarType_str_injective:
  assumes "enum_names venue_name" and "enum_names resolution_name"
    and "enum_names quote_type_name"
    and "BarType_init s1 p1 r1 q1 = Inr bt1" and "BarType_init s2 p2 r2 q2 = Inr bt2"
  shows "BarType_str venue_name resolution_name quote_type_name bt1
           = code s1 @ ''.'' @ venue_name (venue s1) @ ''-'' @ str_int p1 @ ''-''
             @ resolution_name r1 @ ''['' @ quote_type_name q1 @ '']''
       \<and> (BarType_str venue_name resolution_name quote_type_name bt1
            = BarType_str venue_name resolution_name quote_type_name bt2
          \<longleftrightarrow> BarType_eq bt1 bt2)"
proof -
  note b1 = BarType_init_Inr [OF assms(4)] and b2 = BarType_init_Inr [OF assms(5)]
  have fmt: "BarType_str venue_name resolution_name quote_type_name bt1
           = code s1 @ ''.'' @ venue_name (venue s1) @ ''-'' @ str_int p1 @ ''-''
             @ resolution_name r1 @ ''['' @ quote_type_name q1 @ '']''"
    using b1 by (simp add: BarType_str_def Symbol_str_def)
  have inj: "BarType_eq bt1 bt2"
    if "BarType_str venue_name resolution_name quote_type_name bt1
           = BarType_str venue_name resolution_name quote_type_name bt2"
  proof -
    from that
    have "code s1 @ ''.'' @ venue_name (venue s1) @ ''-'' @ str_int p1 @ ''-''
             @ resolution_name r1 @ ''['' @ quote_type_name q1 @ '']''
       = code s2 @ ''.'' @ venue_name (venue s2) @ ''-'' @ str_int p2 @ ''-''
             @ resolution_name r2 @ ''['' @ quote_type_name q2 @ '']''"
      using b1 b2 by (simp add: BarType_str_def Symbol_str_def)
    from BarType_str_parts [OF assms(1-3) this b1(2) b2(2)]
    show ?thesis
      using b1 b2 by (simp add: BarType_eq_def Symbol_eq_def)
  qed
  have same: "BarType_str venue_name resolution_name quote_type_name bt1
           = BarType_str venue_name resolution_name quote_type_name bt2"
    if "BarType_eq bt1 bt2"
    using that b1 b2
    by (simp add: BarType_eq_def Symbol_eq_def BarType_str_def Symbol_str_def)
  from fmt inj same show ?thesis by blast
qed

theorem BarType_str_injective_witness:
  "enum_names Venue_name \<and> enum_names Resolution_name \<and> enum_names QuoteType_name
   \<and> BarType_init \<lparr>code = ''AUDUSD'', venue = FXCM\<rparr> 1 MINUTE BID
       = Inr \<lparr>symbol = \<lparr>code = ''AUDUSD'', venue = FXCM\<rparr>, period = 1, resolution = MINUTE,
              quote_type = BID\<rparr>
   \<and> BarType_init \<lparr>code = ''AUDUSD'', venue = FXCM\<rparr> 11 MINUTE BID
       = Inr \<lparr>symbol = \<lparr>code = ''AUDUSD'', venue = FXCM\<rparr>, period = 11, resolution = MINUTE,
              quote_type = BID\<rparr>
   \<and> BarType_str Venue_name Resolution_name QuoteType_name
       \<lparr>symbol = \<lparr>code = ''AUDUSD'', venue = FXCM\<rparr>, period = 1, resolution = MINUTE,
        quote_type = BID\<rparr>
       = ''AUDUSD.FXCM-1-MINUTE[BID]''
   \<and> BarType_eq
       \<lparr>symbol = \<lparr>code = ''AUDUSD'', venue = FXCM\<rparr>, period = 1, resolution = MINUTE,
        quote_type = BID\<rparr>
       \<lparr>symbol = \<lparr>code = ''AUDUSD'', venue = FXCM\<rparr>, period = 1, resolution = MINUTE,
        quote_type = BID\<rparr>
   \<and> BarType_str Venue_name Resolution_name QuoteType_name
       \<lparr>symbol = \<lparr>code = ''AUDUSD'', venue = FXCM\<rparr>, period = 1, resolution = MINUTE,
        quote_type = BID\<rparr>
     \<noteq> BarType_str Venue_name Resolution_name QuoteType_name
       \<lparr>symbol = \<lparr>code = ''AUDUSD'', venue = FXCM\<rparr>, period = 11, resolution = MINUTE,
        quote_type = BID\<rparr>"
proof -
  have i1: "BarType_init \<lparr>code = ''AUDUSD'', venue = FXCM\<rparr> 1 MINUTE BID
       = Inr \<lparr>symbol = \<lparr>code = ''AUDUSD'', venue = FXCM\<rparr>, period = 1, resolution = MINUTE,
              quote_type = BID\<rparr>"
    by (simp add: BarType_init_def Precondition_positive_def)
  have i2: "BarType_init \<lparr>code = ''AUDUSD'', venue = FXCM\<rparr> 11 MINUTE BID
       = Inr \<lparr>symbol = \<lparr>code = ''AUDUSD'', venue = FXCM\<rparr>, period = 11, resolution = MINUTE,
              quote_type = BID\<rparr>"
    by (simp add: BarType_init_def Precondition_positive_def)
  note e = enum_names_Venue enum_names_Resolution enum_names_QuoteType
  from BarType_str_injective [OF e i1 i1, THEN conjunct1]
  have f1: "BarType_str Venue_name Resolution_name QuoteType_name
       \<lparr>symbol = \<lparr>code = ''AUDUSD'', venue = FXCM\<rparr>, period = 1, resolution = MINUTE,
        quote_type = BID\<rparr>
       = ''AUDUSD.FXCM-1-MINUTE[BID]''"
    by (simp add: str_int_1)
  from BarType_str_injective [OF e i1 i2, THEN conjunct2]
  have f2: "BarType_str Venue_name Resolution_name QuoteType_name
       \<lparr>symbol = \<lparr>code = ''AUDUSD'', venue = FXCM\<rparr>, period = 1, resolution = MINUTE,
        quote_type = BID\<rparr>
     \<noteq> BarType_str Venue_name Resolution_name QuoteType_name
       \<lparr>symbol = \<lparr>code = ''AUDUSD'', venue = FXCM\<rparr>, period = 11, resolution = MINUTE,
        quote_type = BID\<rparr>"
    by (simp add: BarType_eq_def Symbol_eq_def)
  have f3: "BarType_eq
       \<lparr>symbol = \<lparr>code = ''AUDUSD'', venue = FXCM\<rparr>, period = 1, resolution = MINUTE,
        quote_type = BID\<rparr>
       \<lparr>symbol = \<lparr>code = ''AUDUSD'', venue = FXCM\<rparr>, period = 1, resolution = MINUTE,
        quote_type = BID\<rparr>"
    by (simp add: BarType_eq_def Symbol_eq_def)
  from e i1 i2 f1 f2 f3 show ?thesis by (intro conjI)
qed

section \<open>Properties of the limit-if-touched order\<close>

subsection \<open>Decimal arithmetic\<close>

lemma dec_val_powi: "dec_val d = of_int (coeff d) * 10 powi exponent d"
  by (simp add: dec_val_def power_int_def field_simps)

lemma dec_val_sub: "dec_val (Decimal_sub a b) = dec_val a - dec_val b"
proof -
  define e where "e = min (exponent a) (exponent b)"
  have ea: "0 \<le> exponent a - e" and eb: "0 \<le> exponent b - e" by (simp_all add: e_def)
  have pa: "(10::rat) ^ nat (exponent a - e) * 10 powi e = 10 powi exponent a"
  proof -
    have "(10::rat) ^ nat (exponent a - e) = 10 powi (exponent a - e)"
      using ea by (simp add: power_int_def)
    then show ?thesis by (simp add: power_int_add [symmetric])
  qed
  have pb: "(10::rat) ^ nat (exponent b - e) * 10 powi e = 10 powi exponent b"
  proof -
    have "(10::rat) ^ nat (exponent b - e) = 10 powi (exponent b - e)"
      using eb by (simp add: power_int_def)
    then show ?thesis by (simp add: power_int_add [symmetric])
  qed
  have "dec_val (Decimal_sub a b)
      = (of_int (coeff a) * 10 ^ nat (exponent a - e)
          - of_int (coeff b) * 10 ^ nat (exponent b - e)) * 10 powi e"
    by (simp add: dec_val_powi Decimal_sub_def Let_def e_def)
  also have "\<dots> = of_int (coeff a) * (10 ^ nat (exponent a - e) * 10 powi e)
                 - of_int (coeff b) * (10 ^ nat (exponent b - e) * 10 powi e)"
    by (simp add: algebra_simps)
  also have "\<dots> = dec_val a - dec_val b"
    by (simp only: pa pb dec_val_powi)
  finally show ?thesis .
qed





subsection \<open>Construction\<close>

lemma expire_time_ns_of_Inr:
  "expire_time_ns_of nanos tif et = Inr ns \<longleftrightarrow>
     (tif = GTD \<and> (\<exists>t. et = Some t \<and> ns = nanos t \<and> 0 <s nanos t))
     \<or> (tif \<noteq> GTD \<and> et = None \<and> ns = 0)"
  by (auto simp: expire_time_ns_of_def Let_def split: option.splits)

lemma expire_time_ns_of_valid:
  "expire_time_valid nanos tif et \<longleftrightarrow> (\<exists>ns. expire_time_ns_of nanos tif et = Inr ns)"
  by (auto simp: expire_time_ns_of_def expire_time_valid_def Let_def split: option.splits)

lemma expire_time_ns_of_Inl:
  "expire_time_ns_of nanos tif et = Inl e \<Longrightarrow> \<exists>m. e = ValueError m"
  by (auto simp: expire_time_ns_of_def Let_def split: option.splits if_splits)

lemma init_Inr_expire:
  assumes "LimitIfTouchedOrder_init nanos tid sid iid cid sd q px tp tt tif et ini ts po ro dq
             ol ct li pa tg = Inr ord"
  shows "expire_time_ns_of nanos tif et = Inr (expire_time_ns ord)" and "expire_time ord = et"
  using assms
  by (auto simp: LimitIfTouchedOrder_init_def split: if_splits sum.splits)

lemma init_succeeds:
  assumes "tt \<noteq> NONE" and "expire_time_ns_of nanos tif et = Inr ns"
    and "0 < dec_val (as_decimal q)"
    and "case dq of None \<Rightarrow> True | Some d \<Rightarrow> 0 \<le> dec_val (as_decimal d) \<and> Quantity_le d q"
  shows "\<exists>ord. LimitIfTouchedOrder_init nanos tid sid iid cid sd q px tp tt tif et ini ts po ro
                 dq ol ct li pa tg = Inr ord"
  using assms
  by (simp add: LimitIfTouchedOrder_init_def)

lemma init_fails_expire:
  assumes "\<not> expire_time_valid nanos tif et"
  shows "\<exists>m. LimitIfTouchedOrder_init nanos tid sid iid cid sd q px tp tt tif et ini ts po ro dq
               ol ct li pa tg = Inl (ValueError m)"
proof (cases "expire_time_ns_of nanos tif et")
  case (Inl e)
  then obtain m where "e = ValueError m" using expire_time_ns_of_Inl by blast
  with Inl show ?thesis by (simp add: LimitIfTouchedOrder_init_def)
next
  case (Inr ns)
  with assms show ?thesis using expire_time_ns_of_valid by blast
qed

text \<open>
  C2: construction fails with a \<open>ValueError\<close> if the time in force is GTD and the
  expire time is absent or not after the epoch, and if the time in force is not GTD and
  an expire time is present. A constructed order has \<open>expire_time_ns > 0\<close> exactly when
  its time in force is GTD, and then \<open>expire_time_ns\<close> is the nanoseconds of the expire
  time given; otherwise it is 0. With the other arguments valid, construction succeeds
  with \<open>expire_time_ns > 0\<close> exactly when the time in force is GTD and the expire time is
  after the epoch.
\<close>

theorem LimitIfTouchedOrder_init_expire_time:
  "(let r = LimitIfTouchedOrder_init nanos tid sid iid cid sd q px tp tt tif et ini ts po ro dq
              ol ct li pa tg
    in (tif = GTD \<and> (et = None \<or> (\<exists>t. et = Some t \<and> \<not> 0 <s nanos t))
          \<longrightarrow> (\<exists>m. r = Inl (ValueError m)))
     \<and> (tif \<noteq> GTD \<and> et \<noteq> None \<longrightarrow> (\<exists>m. r = Inl (ValueError m)))
     \<and> (\<forall>ord. r = Inr ord \<longrightarrow>
           (0 <s expire_time_ns ord \<longleftrightarrow> tif = GTD)
           \<and> (tif = GTD \<longrightarrow> (\<exists>t. et = Some t \<and> expire_time_ns ord = nanos t \<and> 0 <s nanos t))
           \<and> (tif \<noteq> GTD \<longrightarrow> et = None \<and> expire_time_ns ord = 0)
           \<and> expire_time ord = et)
     \<and> (tt \<noteq> NONE \<and> 0 < dec_val (as_decimal q)
         \<and> (case dq of None \<Rightarrow> True
             | Some d \<Rightarrow> 0 \<le> dec_val (as_decimal d) \<and> Quantity_le d q)
         \<longrightarrow> ((\<exists>ord. r = Inr ord \<and> 0 <s expire_time_ns ord)
               \<longleftrightarrow> tif = GTD \<and> (\<exists>t. et = Some t \<and> 0 <s nanos t))))"
proof -
  let ?r = "LimitIfTouchedOrder_init nanos tid sid iid cid sd q px tp tt tif et ini ts po ro dq
              ol ct li pa tg"
  have a: "tif = GTD \<and> (et = None \<or> (\<exists>t. et = Some t \<and> \<not> 0 <s nanos t))
             \<longrightarrow> (\<exists>m. ?r = Inl (ValueError m))"
  proof
    assume "tif = GTD \<and> (et = None \<or> (\<exists>t. et = Some t \<and> \<not> 0 <s nanos t))"
    then have "\<not> expire_time_valid nanos tif et" by (auto simp: expire_time_valid_def)
    then show "\<exists>m. ?r = Inl (ValueError m)" by (rule init_fails_expire)
  qed
  have b: "tif \<noteq> GTD \<and> et \<noteq> None \<longrightarrow> (\<exists>m. ?r = Inl (ValueError m))"
  proof
    assume "tif \<noteq> GTD \<and> et \<noteq> None"
    then have "\<not> expire_time_valid nanos tif et" by (auto simp: expire_time_valid_def)
    then show "\<exists>m. ?r = Inl (ValueError m)" by (rule init_fails_expire)
  qed
  have c: "\<forall>ord. ?r = Inr ord \<longrightarrow>
           (0 <s expire_time_ns ord \<longleftrightarrow> tif = GTD)
           \<and> (tif = GTD \<longrightarrow> (\<exists>t. et = Some t \<and> expire_time_ns ord = nanos t \<and> 0 <s nanos t))
           \<and> (tif \<noteq> GTD \<longrightarrow> et = None \<and> expire_time_ns ord = 0)
           \<and> expire_time ord = et"
  proof (intro allI impI)
    fix ord assume r: "?r = Inr ord"
    from init_Inr_expire(1) [OF r]
    have "(tif = GTD \<and> (\<exists>t. et = Some t \<and> expire_time_ns ord = nanos t \<and> 0 <s nanos t))
          \<or> (tif \<noteq> GTD \<and> et = None \<and> expire_time_ns ord = 0)"
      by (simp only: expire_time_ns_of_Inr)
    then show "(0 <s expire_time_ns ord \<longleftrightarrow> tif = GTD)
           \<and> (tif = GTD \<longrightarrow> (\<exists>t. et = Some t \<and> expire_time_ns ord = nanos t \<and> 0 <s nanos t))
           \<and> (tif \<noteq> GTD \<longrightarrow> et = None \<and> expire_time_ns ord = 0)
           \<and> expire_time ord = et"
      using init_Inr_expire(2) [OF r] by auto
  qed
  have d: "tt \<noteq> NONE \<and> 0 < dec_val (as_decimal q)
         \<and> (case dq of None \<Rightarrow> True
             | Some d \<Rightarrow> 0 \<le> dec_val (as_decimal d) \<and> Quantity_le d q)
         \<longrightarrow> ((\<exists>ord. ?r = Inr ord \<and> 0 <s expire_time_ns ord)
               \<longleftrightarrow> tif = GTD \<and> (\<exists>t. et = Some t \<and> 0 <s nanos t))"
  proof
    assume h: "tt \<noteq> NONE \<and> 0 < dec_val (as_decimal q)
         \<and> (case dq of None \<Rightarrow> True
             | Some d \<Rightarrow> 0 \<le> dec_val (as_decimal d) \<and> Quantity_le d q)"
    show "(\<exists>ord. ?r = Inr ord \<and> 0 <s expire_time_ns ord)
               \<longleftrightarrow> tif = GTD \<and> (\<exists>t. et = Some t \<and> 0 <s nanos t)"
    proof
      assume "\<exists>ord. ?r = Inr ord \<and> 0 <s expire_time_ns ord"
      with c show "tif = GTD \<and> (\<exists>t. et = Some t \<and> 0 <s nanos t)" by blast
    next
      assume g: "tif = GTD \<and> (\<exists>t. et = Some t \<and> 0 <s nanos t)"
      then obtain t where t: "et = Some t" "0 <s nanos t" by blast
      with g have "expire_time_ns_of nanos tif et = Inr (nanos t)"
        by (simp add: expire_time_ns_of_Inr)
      from init_succeeds [OF _ this, of tt q dq] h
      obtain ord where "?r = Inr ord" by blast
      with c g show "\<exists>ord. ?r = Inr ord \<and> 0 <s expire_time_ns ord" by blast
    qed
  qed
  from a b c d show ?thesis unfolding Let_def by blast
qed

theorem LimitIfTouchedOrder_init_expire_time_witness:
  "(\<exists>m. example_init GTD None None = Inl (ValueError m))
   \<and> (\<exists>m. example_init GTD (Some 0) None = Inl (ValueError m))
   \<and> (\<exists>m. example_init GTC (Some 1650000000000000000) None = Inl (ValueError m))
   \<and> (\<exists>ord. example_init GTD (Some 1650000000000000000) None = Inr ord
         \<and> 0 <s expire_time_ns ord \<and> expire_time_ns ord = 1650000000000000000)
   \<and> example_init GTC None None = Inr example_order
   \<and> \<not> 0 <s expire_time_ns example_order"
proof -
  note t = LimitIfTouchedOrder_init_expire_time
      [where nanos = "\<lambda>t. t" and tid = "''TESTER-000''" and sid = "''S-001''"
        and iid = "''BTCUSD.FTX''" and cid = "''O-1''" and sd = BUY
        and q = "\<lparr>as_decimal = \<lparr>coeff = 10, exponent = - 1\<rparr>, precision = 1\<rparr>"
        and px = "\<lparr>as_decimal = \<lparr>coeff = 10000, exponent = - 2\<rparr>, precision = 2\<rparr>"
        and tp = "\<lparr>as_decimal = \<lparr>coeff = 9900, exponent = - 2\<rparr>, precision = 2\<rparr>"
        and tt = LAST_PRICE and ini = "''init-1''" and ts = 0 and po = False and ro = False
        and dq = None and ol = None and ct = NO_CONTINGENCY and li = None and pa = None
        and tg = None, unfolded Let_def, folded example_init_def]
  have a: "\<exists>m. example_init GTD None None = Inl (ValueError m)"
    using t [of GTD None, THEN conjunct1] by simp
  have b: "\<exists>m. example_init GTD (Some 0) None = Inl (ValueError m)"
    using t [of GTD "Some 0", THEN conjunct1] by simp
  have c: "\<exists>m. example_init GTC (Some 1650000000000000000) None = Inl (ValueError m)"
    using t [of GTC "Some 1650000000000000000", THEN conjunct2, THEN conjunct1] by simp
  have pos: "(0::int64) <s 1650000000000000000"
    by (simp add: word_sless_alt)
  have d: "\<exists>ord. example_init GTD (Some 1650000000000000000) None = Inr ord
         \<and> 0 <s expire_time_ns ord \<and> expire_time_ns ord = 1650000000000000000"
  proof -
    from t [of GTD "Some 1650000000000000000", THEN conjunct2, THEN conjunct2, THEN conjunct2] pos
    obtain ord where o: "example_init GTD (Some 1650000000000000000) None = Inr ord"
      and "0 <s expire_time_ns ord"
      by (auto simp: dec_val_def)
    moreover from t [of GTD "Some 1650000000000000000", THEN conjunct2, THEN conjunct2,
        THEN conjunct1] o
    have "expire_time_ns ord = 1650000000000000000" by auto
    ultimately show ?thesis by blast
  qed
  have e: "example_init GTC None None = Inr example_order"
    by (simp add: example_init_def example_order_def LimitIfTouchedOrder_init_def
        expire_time_ns_of_def dec_val_def)
  from t [of GTC None, THEN conjunct2, THEN conjunct2, THEN conjunct1] e
  have f: "\<not> 0 <s expire_time_ns example_order" by auto
  from a b c d e f show ?thesis by (intro conjI)
qed

text \<open>
  C3: with the other arguments valid, construction with a display quantity fails with a
  \<open>ValueError\<close> exactly when the display quantity is negative or greater than the
  quantity, and succeeds, keeping the display quantity, exactly when it lies between 0
  and the quantity. In particular \<open>quantity + 1\<close> fails, 0 succeeds and \<open>quantity\<close>
  itself succeeds.
\<close>

theorem LimitIfTouchedOrder_init_display_qty:
  assumes "tt \<noteq> NONE" and "expire_time_valid nanos tif et" and "0 < dec_val (as_decimal q)"
  shows "((\<exists>m. LimitIfTouchedOrder_init nanos tid sid iid cid sd q px tp tt tif et ini ts po ro
                 (Some dq) ol ct li pa tg = Inl (ValueError m))
          \<longleftrightarrow> dec_val (as_decimal dq) < 0 \<or> dec_val (as_decimal q) < dec_val (as_decimal dq))
       \<and> ((\<exists>ord. LimitIfTouchedOrder_init nanos tid sid iid cid sd q px tp tt tif et ini ts po ro
                 (Some dq) ol ct li pa tg = Inr ord \<and> display_qty ord = Some dq)
          \<longleftrightarrow> 0 \<le> dec_val (as_decimal dq) \<and> dec_val (as_decimal dq) \<le> dec_val (as_decimal q))
       \<and> (dec_val (as_decimal dq) = dec_val (as_decimal q) + 1 \<longrightarrow>
            (\<exists>m. LimitIfTouchedOrder_init nanos tid sid iid cid sd q px tp tt tif et ini ts po ro
                 (Some dq) ol ct li pa tg = Inl (ValueError m)))
       \<and> (dec_val (as_decimal dq) = 0 \<longrightarrow>
            (\<exists>ord. LimitIfTouchedOrder_init nanos tid sid iid cid sd q px tp tt tif et ini ts po ro
                 (Some dq) ol ct li pa tg = Inr ord \<and> display_qty ord = Some dq))
       \<and> (\<exists>ord. LimitIfTouchedOrder_init nanos tid sid iid cid sd q px tp tt tif et ini ts po ro
                 (Some q) ol ct li pa tg = Inr ord \<and> display_qty ord = Some q)"
proof -
  from assms(2) obtain ns where ns: "expire_time_ns_of nanos tif et = Inr ns"
    using expire_time_ns_of_valid by blast
  have fail: "\<exists>m. LimitIfTouchedOrder_init nanos tid sid iid cid sd q px tp tt tif et ini ts po ro
                 (Some d) ol ct li pa tg = Inl (ValueError m)"
    if "dec_val (as_decimal d) < 0 \<or> dec_val (as_decimal q) < dec_val (as_decimal d)" for d
    using that assms(1) ns
    by (auto simp: LimitIfTouchedOrder_init_def Quantity_le_def Decimal_le_def)
  have ok: "\<exists>ord. LimitIfTouchedOrder_init nanos tid sid iid cid sd q px tp tt tif et ini ts po ro
                 (Some d) ol ct li pa tg = Inr ord \<and> display_qty ord = Some d"
    if "0 \<le> dec_val (as_decimal d)" "dec_val (as_decimal d) \<le> dec_val (as_decimal q)" for d
    using that assms(1,3) ns
    by (simp add: LimitIfTouchedOrder_init_def Quantity_le_def Decimal_le_def)
  have a: "(\<exists>m. LimitIfTouchedOrder_init nanos tid sid iid cid sd q px tp tt tif et ini ts po ro
                 (Some dq) ol ct li pa tg = Inl (ValueError m))
          \<longleftrightarrow> dec_val (as_decimal dq) < 0 \<or> dec_val (as_decimal q) < dec_val (as_decimal dq)"
    using fail [of dq] ok [of dq]
    by (cases "dec_val (as_decimal dq) < 0 \<or> dec_val (as_decimal q) < dec_val (as_decimal dq)")
      auto
  have b: "(\<exists>ord. LimitIfTouchedOrder_init nanos tid sid iid cid sd q px tp tt tif et ini ts po ro
                 (Some dq) ol ct li pa tg = Inr ord \<and> display_qty ord = Some dq)
          \<longleftrightarrow> 0 \<le> dec_val (as_decimal dq) \<and> dec_val (as_decimal dq) \<le> dec_val (as_decimal q)"
    using fail [of dq] ok [of dq]
    by (cases "dec_val (as_decimal dq) < 0 \<or> dec_val (as_decimal q) < dec_val (as_decimal dq)")
      auto
  have c: "dec_val (as_decimal dq) = dec_val (as_decimal q) + 1 \<longrightarrow>
            (\<exists>m. LimitIfTouchedOrder_init nanos tid sid iid cid sd q px tp tt tif et ini ts po ro
                 (Some dq) ol ct li pa tg = Inl (ValueError m))"
    using fail [of dq] by simp
  have d: "dec_val (as_decimal dq) = 0 \<longrightarrow>
            (\<exists>ord. LimitIfTouchedOrder_init nanos tid sid iid cid sd q px tp tt tif et ini ts po ro
                 (Some dq) ol ct li pa tg = Inr ord \<and> display_qty ord = Some dq)"
    using ok [of dq] assms(3) by simp
  have e: "\<exists>ord. LimitIfTouchedOrder_init nanos tid sid iid cid sd q px tp tt tif et ini ts po ro
                 (Some q) ol ct li pa tg = Inr ord \<and> display_qty ord = Some q"
    using ok [of q] assms(3) by simp
  from a b c d e show ?thesis by blast
qed

theorem LimitIfTouchedOrder_init_display_qty_witness:
  "LAST_PRICE \<noteq> NONE \<and> expire_time_valid (\<lambda>t::int64. t) GTC None
   \<and> 0 < dec_val (as_decimal \<lparr>as_decimal = \<lparr>coeff = 10, exponent = - 1\<rparr>, precision = 1\<rparr>)
   \<and> (\<exists>m. example_init GTC None (Some \<lparr>as_decimal = \<lparr>coeff = 20, exponent = - 1\<rparr>, precision = 1\<rparr>)
          = Inl (ValueError m))
   \<and> (\<exists>ord. example_init GTC None (Some \<lparr>as_decimal = \<lparr>coeff = 0, exponent = - 1\<rparr>, precision = 1\<rparr>)
          = Inr ord
        \<and> display_qty ord = Some \<lparr>as_decimal = \<lparr>coeff = 0, exponent = - 1\<rparr>, precision = 1\<rparr>)
   \<and> (\<exists>ord. example_init GTC None (Some \<lparr>as_decimal = \<lparr>coeff = 10, exponent = - 1\<rparr>, precision = 1\<rparr>)
          = Inr ord
        \<and> display_qty ord = Some \<lparr>as_decimal = \<lparr>coeff = 10, exponent = - 1\<rparr>, precision = 1\<rparr>)"
proof -
  have h1: "LAST_PRICE \<noteq> NONE" by simp
  have h2: "expire_time_valid (\<lambda>t::int64. t) GTC None" by (simp add: expire_time_valid_def)
  have h3: "0 < dec_val (as_decimal \<lparr>as_decimal = \<lparr>coeff = 10, exponent = - 1\<rparr>, precision = 1\<rparr>)"
    by (simp add: dec_val_def)
  note t = LimitIfTouchedOrder_init_display_qty
      [OF h1 h2 h3, where tid = "''TESTER-000''" and sid = "''S-001''"
        and iid = "''BTCUSD.FTX''" and cid = "''O-1''" and sd = BUY
        and px = "\<lparr>as_decimal = \<lparr>coeff = 10000, exponent = - 2\<rparr>, precision = 2\<rparr>"
        and tp = "\<lparr>as_decimal = \<lparr>coeff = 9900, exponent = - 2\<rparr>, precision = 2\<rparr>"
        and ini = "''init-1''" and ts = 0 and po = False and ro = False
        and ol = None and ct = NO_CONTINGENCY and li = None and pa = None
        and tg = None, folded example_init_def]
  have a: "\<exists>m. example_init GTC None (Some \<lparr>as_decimal = \<lparr>coeff = 20, exponent = - 1\<rparr>, precision = 1\<rparr>)
          = Inl (ValueError m)"
    using t [of "\<lparr>as_decimal = \<lparr>coeff = 20, exponent = - 1\<rparr>, precision = 1\<rparr>",
        THEN conjunct2, THEN conjunct2, THEN conjunct1]
    by (simp add: dec_val_def)
  have b: "\<exists>ord. example_init GTC None (Some \<lparr>as_decimal = \<lparr>coeff = 0, exponent = - 1\<rparr>, precision = 1\<rparr>)
          = Inr ord
        \<and> display_qty ord = Some \<lparr>as_decimal = \<lparr>coeff = 0, exponent = - 1\<rparr>, precision = 1\<rparr>"
    using t [of "\<lparr>as_decimal = \<lparr>coeff = 0, exponent = - 1\<rparr>, precision = 1\<rparr>",
        THEN conjunct2, THEN conjunct2, THEN conjunct2, THEN conjunct1]
    by (simp add: dec_val_def)
  have c: "\<exists>ord. example_init GTC None (Some \<lparr>as_decimal = \<lparr>coeff = 10, exponent = - 1\<rparr>, precision = 1\<rparr>)
          = Inr ord
        \<and> display_qty ord = Some \<lparr>as_decimal = \<lparr>coeff = 10, exponent = - 1\<rparr>, precision = 1\<rparr>"
    using t [of "\<lparr>as_decimal = \<lparr>coeff = 0, exponent = - 1\<rparr>, precision = 1\<rparr>",
        THEN conjunct2, THEN conjunct2, THEN conjunct2, THEN conjunct2] .
  from h1 h2 h3 a b c show ?thesis by (intro conjI)
qed

subsection \<open>Events\<close>

text \<open>
  C4: for an order with an average fill price, the recomputed slippage is
  \<open>avg_px - price\<close> on the buy side and \<open>price - avg_px\<close> on the sell side; nothing
  else changes. The slippage is positive exactly when a buy was filled above the limit
  price, and exactly when a sell was filled below it.
\<close>

theorem LimitIfTouchedOrder_set_slippage_sign:
  assumes "avg_px self = Some a"
  shows "\<exists>self'. LimitIfTouchedOrder_set_slippage self = Inr self'
           \<and> self' = self\<lparr>slippage := slippage self'\<rparr>
           \<and> (side self = BUY \<longrightarrow>
                slippage self' = Decimal_sub a (as_decimal (LimitIfTouchedOrder.price self))
                \<and> dec_val (slippage self')
                    = dec_val a - dec_val (as_decimal (LimitIfTouchedOrder.price self))
                \<and> (0 < dec_val (slippage self')
                     \<longleftrightarrow> dec_val (as_decimal (LimitIfTouchedOrder.price self)) < dec_val a))
           \<and> (side self = SELL \<longrightarrow>
                slippage self' = Decimal_sub (as_decimal (LimitIfTouchedOrder.price self)) a
                \<and> dec_val (slippage self')
                    = dec_val (as_decimal (LimitIfTouchedOrder.price self)) - dec_val a
                \<and> (0 < dec_val (slippage self')
                     \<longleftrightarrow> dec_val a < dec_val (as_decimal (LimitIfTouchedOrder.price self))))"
proof (cases "side self")
  case BUY
  with assms show ?thesis
    by (simp add: LimitIfTouchedOrder_set_slippage_def dec_val_sub)
next
  case SELL
  with assms show ?thesis
    by (simp add: LimitIfTouchedOrder_set_slippage_def dec_val_sub)
qed

theorem LimitIfTouchedOrder_set_slippage_sign_witness:
  "avg_px (example_order\<lparr>avg_px := Some \<lparr>coeff = 9950, exponent = - 2\<rparr>\<rparr>)
     = Some \<lparr>coeff = 9950, exponent = - 2\<rparr>
   \<and> side (example_order\<lparr>avg_px := Some \<lparr>coeff = 9950, exponent = - 2\<rparr>\<rparr>) = BUY
   \<and> (\<exists>self'. LimitIfTouchedOrder_set_slippage
                (example_order\<lparr>avg_px := Some \<lparr>coeff = 9950, exponent = - 2\<rparr>\<rparr>) = Inr self'
         \<and> slippage self' = \<lparr>coeff = - 50, exponent = - 2\<rparr>
         \<and> dec_val (slippage self') = - (1 / 2)
         \<and> \<not> 0 < dec_val (slippage self'))"
proof -
  let ?o = "example_order\<lparr>avg_px := Some \<lparr>coeff = 9950, exponent = - 2\<rparr>\<rparr>"
  have h: "avg_px ?o = Some \<lparr>coeff = 9950, exponent = - 2\<rparr>" by simp
  have s: "side ?o = BUY" by (simp add: example_order_def)
  have p: "as_decimal (LimitIfTouchedOrder.price ?o) = \<lparr>coeff = 10000, exponent = - 2\<rparr>"
    by (simp add: example_order_def)
  from LimitIfTouchedOrder_set_slippage_sign [OF h] s
  obtain self' where r: "LimitIfTouchedOrder_set_slippage ?o = Inr self'"
    and v: "slippage self'
            = Decimal_sub \<lparr>coeff = 9950, exponent = - 2\<rparr> (as_decimal (LimitIfTouchedOrder.price ?o))"
    by blast
  from v p have "slippage self' = \<lparr>coeff = - 50, exponent = - 2\<rparr>"
    by (simp add: Decimal_sub_def)
  moreover from this have "dec_val (slippage self') = - (1 / 2)"
    by (simp add: dec_val_def)
  ultimately show ?thesis using h s r by auto
qed

lemma Quantity_new_cases:
  "Quantity_new v p =
     (if dec_val (Decimal_round v p) < 0 then Inl (ValueError ''quantity negative'')
      else Inr \<lparr>as_decimal = Decimal_round v p, precision = p\<rparr>)"
  by (simp add: Quantity_new_def Let_def)

text \<open>
  When \<open>Quantity\<close> raises, the order is left half updated: venue order id, history and
  quantity are those of the event, \<open>leaves_qty\<close>, price and trigger price are untouched.
\<close>

lemma LimitIfTouchedOrder_updated_raises:
  assumes "LimitIfTouchedOrder_updated self event = (Some e, self')"
  shows "e = ValueError ''quantity negative''"
    and "\<exists>q. OrderUpdated.quantity event = Some q \<and> LimitIfTouchedOrder.quantity self' = q
            \<and> dec_val (Decimal_round (Quantity_sub q (filled_qty self)) (precision q)) < 0"
    and "LimitIfTouchedOrder.venue_order_id self' = OrderUpdated.venue_order_id event"
    and "venue_order_ids self' =
          (if LimitIfTouchedOrder.venue_order_id self \<noteq> OrderUpdated.venue_order_id event
           then venue_order_ids self @ [LimitIfTouchedOrder.venue_order_id self]
           else venue_order_ids self)"
    and "leaves_qty self' = leaves_qty self"
    and "LimitIfTouchedOrder.price self' = LimitIfTouchedOrder.price self"
    and "LimitIfTouchedOrder.trigger_price self' = LimitIfTouchedOrder.trigger_price self"
  using assms
  by (auto simp: LimitIfTouchedOrder_updated_def Let_def Quantity_new_cases
      split: option.splits if_splits)




end
